theory Spec2Isabelle
  imports Complex_Main
begin

section \<open>Grouped aggregation (accumarray): the numpy backend and the weave kernels\<close>

text \<open>
  A shallow embedding of \<^verbatim>\<open>aggregate/aggregate_numpy.py\<close> and of the inline C kernels of
  \<^verbatim>\<open>aggregate/aggregate_weave.py\<close>.

  Array elements are modelled by their numeric value: a finite value is an exact real
  number, and NaN is a value of its own that every arithmetic operation propagates.
  Rounding, overflow, signed zeros and infinities of IEEE doubles are not modelled, and
  64-bit integers are not bounded. An array carries its dtype as a tag, as a numpy
  array does: a boolean array holds the values 0 and 1, an integer array integral values.
\<close>

subsection \<open>Values, dtypes and arrays\<close>

datatype scalar = Fin real | NaN

datatype dtype = dt_bool | dt_int | dt_float

record ndarray =
  shape :: "nat list"
  dtype :: dtype
  data :: "scalar list"

text \<open>The group index is an array of integer dtype: its elements are integers by type, so
  the \<^verbatim>\<open>TypeError\<close> of a non-integer \<^verbatim>\<open>group_idx\<close> has no branch here.\<close>

record index_array =
  ishape :: "nat list"
  idata :: "int list"

datatype size_arg = NoSize | ScalarSize int | SeqSize "int list"

datatype order_arg = order_C | order_F

text \<open>One constructor for each \<^verbatim>\<open>raise\<close> of the source (named after the error
  taxonomy where it has a name for it), and \<open>NumpyError\<close> for an exception that a numpy
  call raises by itself.\<close>

datatype error =
    ValuesNotFlat        \<comment> \<open>"a must be scalar or 1 dimensional, use .ravel to flatten."\<close>
  | BadIndexDims         \<comment> \<open>"Expected indices to have either 1 or 2 dimension."\<close>
  | LengthMismatch       \<comment> \<open>"group_idx and a must be of the same length, or a can be scalar"\<close>
  | InvalidIndex         \<comment> \<open>"Negative indices not supported."\<close>
  | SizeNotScalar        \<comment> \<open>"Output size must be scalar or None"\<close>
  | OutOfBounds          \<comment> \<open>"One or more indices are too large for size %d."\<close>
  | SizeNotSequence      \<comment> \<open>"Output size must be None or 1d sequence of length %d"\<close>
  | SizeCountMismatch    \<comment> \<open>"%d sizes given, but %d output dimensions specified in index"\<close>
  | NoNanVersion         \<comment> \<open>"... does not have a nan- version."\<close>
  | NanScalar            \<comment> \<open>"nan- version not supported for scalar input."\<close>
  | UnknownFunction      \<comment> \<open>"... not found in list of available functions."\<close>
  | ScalarMean           \<comment> \<open>"cannot take mean with scalar a"\<close>
  | ScalarVar            \<comment> \<open>"cannot take variance with scalar a"\<close>
  | FillValueError       \<comment> \<open>raised by \<^verbatim>\<open>check_boolean\<close>\<close>
  | NumpyError           \<comment> \<open>an exception raised inside a numpy call\<close>
  | NoKernel             \<comment> \<open>the \<^verbatim>\<open>KeyError\<close> of \<^verbatim>\<open>c_funcs[func]\<close> in the weave backend\<close>

definition ndim :: "ndarray \<Rightarrow> nat" where
  "ndim a = length (shape a)"

definition scalar_of :: "ndarray \<Rightarrow> scalar" where
  "scalar_of a = hd (data a)"

text \<open>An array is well-formed when its buffer has one element for each position of its
  shape and every element is a value of its dtype.\<close>

fun isnan :: "scalar \<Rightarrow> bool" where
  "isnan NaN = True"
| "isnan (Fin r) = False"

fun representable :: "dtype \<Rightarrow> scalar \<Rightarrow> bool" where
  "representable dt_float v = True"
| "representable dt_int (Fin r) = (of_int \<lfloor>r\<rfloor> = r \<and> - (2 ^ 63) \<le> r \<and> r < 2 ^ 63)"
| "representable dt_int NaN = False"
| "representable dt_bool v = (v = Fin 0 \<or> v = Fin 1)"


subsection \<open>Arithmetic on values\<close>

fun fadd :: "scalar \<Rightarrow> scalar \<Rightarrow> scalar" where
  "fadd (Fin x) (Fin y) = Fin (x + y)"
| "fadd x y = NaN"

fun fsub :: "scalar \<Rightarrow> scalar \<Rightarrow> scalar" where
  "fsub (Fin x) (Fin y) = Fin (x - y)"
| "fsub x y = NaN"

fun fmul :: "scalar \<Rightarrow> scalar \<Rightarrow> scalar" where
  "fmul (Fin x) (Fin y) = Fin (x * y)"
| "fmul x y = NaN"

text \<open>\<^verbatim>\<open>np.minimum\<close> and \<^verbatim>\<open>np.maximum\<close> propagate NaN.\<close>

fun fmin :: "scalar \<Rightarrow> scalar \<Rightarrow> scalar" where
  "fmin (Fin x) (Fin y) = Fin (min x y)"
| "fmin x y = NaN"

fun fmax :: "scalar \<Rightarrow> scalar \<Rightarrow> scalar" where
  "fmax (Fin x) (Fin y) = Fin (max x y)"
| "fmax x y = NaN"

text \<open>Floating division of an accumulated value by an element count. A zero count
  stands under a zero sum (or under NaN) in every reduction below, where the quotient is
  NaN; the infinite quotient of a nonzero value by zero is outside the value model.\<close>

fun fdiv :: "scalar \<Rightarrow> nat \<Rightarrow> scalar" where
  "fdiv (Fin x) c = (if c = 0 then NaN else Fin (x / real c))"
| "fdiv NaN c = NaN"

text \<open>Integer division as numpy does it for integer operands under Python 2
  (\<^verbatim>\<open>/\<close> is floor division there, and a zero divisor gives 0).\<close>

fun idiv :: "scalar \<Rightarrow> nat \<Rightarrow> scalar" where
  "idiv (Fin x) c = (if c = 0 then Fin 0 else Fin (of_int \<lfloor>x / real c\<rfloor>))"
| "idiv NaN c = NaN"

fun fsqrt :: "scalar \<Rightarrow> scalar" where
  "fsqrt (Fin x) = (if x < 0 then NaN else Fin (sqrt x))"
| "fsqrt NaN = NaN"

text \<open>The square root of a real number is not computable: \<open>fsqrt\<close> is left as it is when
  a term is evaluated.\<close>

declare fsqrt.simps [code del]

text \<open>Python's truth value of a number: everything but zero, NaN included.\<close>

definition truthy :: "scalar \<Rightarrow> bool" where
  "truthy v = (v \<noteq> Fin 0)"

definition of_bool :: "bool \<Rightarrow> scalar" where
  "of_bool b = (if b then Fin 1 else Fin 0)"

text \<open>Conversion of a value to a dtype (\<^verbatim>\<open>astype\<close>, and the cast of an assignment into an
  array): to an integer by truncation towards zero (NaN becomes the least 64-bit
  integer), to a boolean by the truth value.\<close>

fun cast :: "dtype \<Rightarrow> scalar \<Rightarrow> scalar" where
  "cast dt_float v = v"
| "cast dt_int (Fin r) = Fin (of_int (if 0 \<le> r then \<lfloor>r\<rfloor> else \<lceil>r\<rceil>))"
| "cast dt_int NaN = Fin (- (2 ^ 63))"
| "cast dt_bool v = of_bool (truthy v)"

text \<open>The sentinels of \<^verbatim>\<open>_min\<close> and \<^verbatim>\<open>_max\<close>: \<^verbatim>\<open>np.iinfo(int64)\<close> and
  \<^verbatim>\<open>np.finfo(float64)\<close>.\<close>

definition iinfo_max :: real where
  "iinfo_max = 2 ^ 63 - 1"

definition iinfo_min :: real where
  "iinfo_min = - (2 ^ 63)"

definition finfo_max :: real where
  "finfo_max = (2 ^ 53 - 1) * 2 ^ 971"

definition finfo_min :: real where
  "finfo_min = - finfo_max"

subsection \<open>The numpy operations the reductions are built from\<close>

text \<open>\<^verbatim>\<open>np.bincount(x, weights, minlength)\<close>: the output has a slot for every index up to
  the largest one and at least \<open>minlength\<close> slots; slot \<open>g\<close> counts the positions that hold
  \<open>g\<close>, or adds up their weights from left to right, starting from 0.\<close>

definition bincount_len :: "nat list \<Rightarrow> nat \<Rightarrow> nat" where
  "bincount_len x minlength = max minlength (if x = [] then 0 else Max (set x) + 1)"

definition bincount :: "nat list \<Rightarrow> nat \<Rightarrow> nat list" where
  "bincount x minlength =
     map (\<lambda>g. length (filter (\<lambda>i. i = g) x)) [0..<bincount_len x minlength]"

definition group_values :: "'k list \<Rightarrow> 'a list \<Rightarrow> 'k \<Rightarrow> 'a list" where
  "group_values x w g = map snd (filter (\<lambda>p. fst p = g) (zip x w))"

definition fsum :: "scalar list \<Rightarrow> scalar" where
  "fsum vs = foldl fadd (Fin 0) vs"

definition bincount_weights :: "nat list \<Rightarrow> scalar list \<Rightarrow> nat \<Rightarrow> scalar list" where
  "bincount_weights x w minlength =
     map (\<lambda>g. fsum (group_values x w g)) [0..<bincount_len x minlength]"

text \<open>\<^verbatim>\<open>ret[idx] = vals\<close> with an index array: the assignments are done one position after
  the other, so a later one overwrites an earlier one at the same destination.\<close>

fun setitem :: "scalar list \<Rightarrow> nat list \<Rightarrow> scalar list \<Rightarrow> scalar list" where
  "setitem ret (g # idx) (v # vals) = setitem (ret[g := v]) idx vals"
| "setitem ret idx vals = ret"

text \<open>\<^verbatim>\<open>ufunc.at(ret, idx, vals)\<close>: the unbuffered in-place operation, one position after
  the other.\<close>

fun ufunc_at :: "(scalar \<Rightarrow> scalar \<Rightarrow> scalar) \<Rightarrow> scalar list \<Rightarrow> nat list \<Rightarrow> scalar list \<Rightarrow> scalar list" where
  "ufunc_at f ret (g # idx) (v # vals) = ufunc_at f (ret[g := f (ret ! g) v]) idx vals"
| "ufunc_at f ret idx vals = ret"

text \<open>\<^verbatim>\<open>x.compress(cond)\<close>: the elements of \<open>x\<close> at the positions where \<open>cond\<close> holds.\<close>

definition compress :: "'a list \<Rightarrow> bool list \<Rightarrow> 'a list" where
  "compress x cond = map fst (filter snd (zip x cond))"

text \<open>The values an index assignment or \<^verbatim>\<open>ufunc.at\<close> sees for \<open>a\<close> at the \<open>k\<close>
  positions of the index: the elements of a one-dimensional \<open>a\<close>; a zero-dimensional or
  one-element \<open>a\<close> is broadcast by numpy, and any other length is refused.\<close>

definition broadcast :: "ndarray \<Rightarrow> nat \<Rightarrow> scalar list" where
  "broadcast a k =
     (if ndim a = 0 \<or> length (data a) = 1 then replicate k (scalar_of a) else data a)"

definition broadcast_error :: "ndarray \<Rightarrow> nat \<Rightarrow> bool" where
  "broadcast_error a k = (ndim a \<noteq> 0 \<and> length (data a) \<noteq> 1 \<and> length (data a) \<noteq> k)"

text \<open>An index beyond the end of the array it addresses: numpy raises \<^verbatim>\<open>IndexError\<close>.\<close>

definition index_error :: "nat list \<Rightarrow> int \<Rightarrow> bool" where
  "index_error idx n = (\<exists>g \<in> set idx. n \<le> int g)"

definition array1d :: "dtype \<Rightarrow> scalar list \<Rightarrow> ndarray" where
  "array1d dt xs = \<lparr>shape = [length xs], dtype = dt, data = xs\<rparr>"

text \<open>\<^verbatim>\<open>np.full(n, v, dtype)\<close>, once \<open>n\<close> is known not to be negative.\<close>

definition full :: "int \<Rightarrow> scalar \<Rightarrow> dtype \<Rightarrow> scalar list" where
  "full n v dt = replicate (nat n) (cast dt v)"

text \<open>\<^verbatim>\<open>dtype or a.dtype\<close>.\<close>

definition dtype_or :: "dtype option \<Rightarrow> dtype \<Rightarrow> dtype" where
  "dtype_or dtype_arg dt = (case dtype_arg of None \<Rightarrow> dt | Some d \<Rightarrow> d)"

subsection \<open>The helpers of \<^verbatim>\<open>utils\<close>\<close>

text \<open>Modelled from the spec: \<^verbatim>\<open>minimum_dtype\<close> of the module \<^verbatim>\<open>utils\<close>, which is not
  among the sources. It is "the smallest dtype that can hold both the fill value and the
  input dtype without overflow/precision loss", over the kinds boolean, integer, floating.\<close>

definition minimum_dtype :: "scalar \<Rightarrow> dtype \<Rightarrow> dtype" where
  "minimum_dtype fill_value dt =
     (if representable dt fill_value then dt
      else if dt = dt_bool \<and> representable dt_int fill_value then dt_int
      else dt_float)"

text \<open>Modelled from the spec: \<^verbatim>\<open>fill_untouched\<close> of the module \<^verbatim>\<open>utils\<close>, which is not
  among the sources: "groups untouched by any element get \<^verbatim>\<open>fill_value\<close>".\<close>

definition fill_untouched :: "nat list \<Rightarrow> scalar list \<Rightarrow> scalar \<Rightarrow> scalar list" where
  "fill_untouched group_idx ret fill_value =
     map (\<lambda>g. if g \<in> set group_idx then ret ! g else fill_value) [0..<length ret]"

text \<open>Modelled from the spec: \<^verbatim>\<open>check_boolean\<close> of the module \<^verbatim>\<open>utils\<close>, which is not
  among the sources: "boolean reductions require a boolean fill value". The default fill
  value 0 passes, as the comparison test runs \<^verbatim>\<open>all\<close> and \<^verbatim>\<open>any\<close> with it.\<close>

definition check_boolean :: "scalar \<Rightarrow> bool" where
  "check_boolean x = (x = Fin 0 \<or> x = Fin 1)"

text \<open>Modelled from the spec: the table \<^verbatim>\<open>aliasing\<close> of the module \<^verbatim>\<open>utils\<close>, which is not
  among the sources, with the aliases that the docstring of \<^verbatim>\<open>aggregate\<close> lists.\<close>

definition aliasing :: "(string \<times> string) list" where
  "aliasing =
     [(''amin'', ''min''), (''minimum'', ''min''), (''amax'', ''max''), (''maximum'', ''max''),
      (''product'', ''prod''), (''times'', ''prod''), (''multiply'', ''prod''),
      (''plus'', ''sum''), (''add'', ''sum''), (''or'', ''any''), (''and'', ''all''),
      (''split'', ''array''), (''splice'', ''array''),
      (''sorted'', ''sort''), (''asort'', ''sort''), (''asorted'', ''sort''),
      (''rsorted'', ''rsort''), (''dsort'', ''rsort''), (''dsorted'', ''rsort'')]"

definition aliasing_get :: "string \<Rightarrow> string" where
  "aliasing_get func = (case map_of aliasing func of None \<Rightarrow> func | Some f \<Rightarrow> f)"

text \<open>The set \<^verbatim>\<open>no_separate_nan_version\<close> of the module \<^verbatim>\<open>utils\<close> is not among the
  sources: \<^verbatim>\<open>aggregate\<close> takes it as the parameter \<open>no_nan\<close> below.

  Modelled from the spec: the set as the spec gives it, the kinds that have no "nan" prefix
  form. (The docstring of \<^verbatim>\<open>aggregate\<close> names the last five of them only.)\<close>

definition no_separate_nan_version :: "string list" where
  "no_separate_nan_version =
     [''first'', ''last'', ''all'', ''any'', ''array'', ''sort'', ''rsort'', ''allnan'', ''anynan'']"

subsection \<open>The reductions of \<^verbatim>\<open>aggregate_numpy\<close>\<close>

text \<open>Each reduction takes the flat group index, the values, the output size, the fill
  value and the requested dtype, as \<^verbatim>\<open>_sum\<close>, \<^verbatim>\<open>_last\<close>, ... of the source do (the
  leading underscore of the Python names is dropped and \<open>_impl\<close> appended). The group
  index holds no negative number when \<^verbatim>\<open>aggregate\<close> calls a reduction, so it is a list
  of naturals here.\<close>

type_synonym impl = "nat list \<Rightarrow> ndarray \<Rightarrow> int \<Rightarrow> scalar \<Rightarrow> dtype option \<Rightarrow> error + ndarray"

text \<open>A negative size makes \<^verbatim>\<open>np.bincount\<close>, \<^verbatim>\<open>np.zeros\<close> and \<^verbatim>\<open>np.full\<close> raise
  \<^verbatim>\<open>ValueError\<close>, and so do weights of a length other than that of the index.\<close>

definition sum_impl :: impl where
  "sum_impl group_idx a n fill_value dtype_arg =
     (let dt = minimum_dtype fill_value (dtype_or dtype_arg (dtype a)) in
      if n < 0 then Inl NumpyError
      else if ndim a \<noteq> 0 \<and> length (data a) \<noteq> length group_idx then Inl NumpyError
      else
        let ret =
              (if ndim a = 0
               then let counts = map (\<lambda>c. cast dt (Fin (real c))) (bincount group_idx (nat n))
                    in if scalar_of a \<noteq> Fin 1
                       then map (\<lambda>r. cast dt (fmul r (scalar_of a))) counts
                       else counts
               else map (cast dt) (bincount_weights group_idx (data a) (nat n)));
            ret' =
              (if fill_value \<noteq> Fin 0
               then fill_untouched group_idx ret (cast dt fill_value)
               else ret)
        in Inr (array1d dt ret'))"

definition last_impl :: impl where
  "last_impl group_idx a n fill_value dtype_arg =
     (let dt = minimum_dtype fill_value (dtype_or dtype_arg (dtype a)) in
      if n < 0 then Inl NumpyError
      else
        let ret = (if fill_value = Fin 0 then replicate (nat n) (Fin 0) else full n fill_value dt) in
        if index_error group_idx n \<or> broadcast_error a (length group_idx) then Inl NumpyError
        else Inr (array1d dt
               (setitem ret group_idx (map (cast dt) (broadcast a (length group_idx))))))"

text \<open>\<^verbatim>\<open>a[::-1]\<close> cannot slice a zero-dimensional array: numpy raises \<^verbatim>\<open>IndexError\<close>.\<close>

definition first_impl :: impl where
  "first_impl group_idx a n fill_value dtype_arg =
     (let dt = minimum_dtype fill_value (dtype_or dtype_arg (dtype a)) in
      if n < 0 then Inl NumpyError
      else
        let ret = (if fill_value = Fin 0 then replicate (nat n) (Fin 0) else full n fill_value dt) in
        if ndim a = 0 then Inl NumpyError
        else if index_error group_idx n \<or> broadcast_error a (length group_idx) then Inl NumpyError
        else Inr (array1d dt
               (setitem ret (rev group_idx)
                  (map (cast dt) (broadcast (a\<lparr>data := rev (data a)\<rparr>) (length group_idx))))))"

definition prod_impl :: impl where
  "prod_impl group_idx a n fill_value dtype_arg =
     (let dt = minimum_dtype fill_value (dtype_or dtype_arg (dtype a)) in
      if n < 0 then Inl NumpyError
      else
        let ret = full n fill_value dt in
        if index_error group_idx n \<or> broadcast_error a (length group_idx) then Inl NumpyError
        else
          let ret' =
                (if fill_value \<noteq> Fin 1
                 then setitem ret group_idx (replicate (length group_idx) (cast dt (Fin 1)))
                 else ret)
          in Inr (array1d dt
               (ufunc_at (\<lambda>r v. cast dt (fmul r v)) ret' group_idx
                  (broadcast a (length group_idx)))))"

text \<open>\<^verbatim>\<open>compress\<close> takes a one-dimensional condition only, and no true condition beyond
  the end of the array it selects from.\<close>

definition compress_error :: "nat list \<Rightarrow> ndarray \<Rightarrow> bool list \<Rightarrow> bool" where
  "compress_error group_idx a cond =
     (ndim a \<noteq> 1 \<or> list_ex (\<lambda>c. c) (drop (length group_idx) cond))"

definition all_impl :: impl where
  "all_impl group_idx a n fill_value dtype_arg =
     (if \<not> check_boolean fill_value then Inl FillValueError
      else if n < 0 then Inl NumpyError
      else
        let ret = full n fill_value dt_bool;
            logical_not_a = map (\<lambda>v. \<not> truthy v) (data a) in
        if (\<not> truthy fill_value \<and> index_error group_idx n)
           \<or> compress_error group_idx a logical_not_a
           \<or> index_error (compress group_idx logical_not_a) n
        then Inl NumpyError
        else
          let ret' =
                (if truthy fill_value then ret
                 else setitem ret group_idx (replicate (length group_idx) (Fin 1)));
              falses = compress group_idx logical_not_a
          in Inr (array1d dt_bool (setitem ret' falses (replicate (length falses) (Fin 0)))))"

definition any_impl :: impl where
  "any_impl group_idx a n fill_value dtype_arg =
     (if \<not> check_boolean fill_value then Inl FillValueError
      else if n < 0 then Inl NumpyError
      else
        let ret = full n fill_value dt_bool;
            cond = map truthy (data a) in
        if (truthy fill_value \<and> index_error group_idx n)
           \<or> compress_error group_idx a cond
           \<or> index_error (compress group_idx cond) n
        then Inl NumpyError
        else
          let ret' =
                (if truthy fill_value
                 then setitem ret group_idx (replicate (length group_idx) (Fin 0))
                 else ret);
              trues = compress group_idx cond
          in Inr (array1d dt_bool (setitem ret' trues (replicate (length trues) (Fin 1)))))"

text \<open>\<^verbatim>\<open>np.iinfo\<close> serves the integer dtype and \<^verbatim>\<open>np.finfo\<close> the floating one;
  \<^verbatim>\<open>np.finfo\<close> of the boolean dtype raises \<^verbatim>\<open>ValueError\<close>.\<close>

definition dtype_max :: "dtype \<Rightarrow> scalar option" where
  "dtype_max dt = (case dt of dt_int \<Rightarrow> Some (Fin iinfo_max) | dt_float \<Rightarrow> Some (Fin finfo_max)
                   | dt_bool \<Rightarrow> None)"

definition dtype_min :: "dtype \<Rightarrow> scalar option" where
  "dtype_min dt = (case dt of dt_int \<Rightarrow> Some (Fin iinfo_min) | dt_float \<Rightarrow> Some (Fin finfo_min)
                   | dt_bool \<Rightarrow> None)"

definition min_impl :: impl where
  "min_impl group_idx a n fill_value dtype_arg =
     (let dt = minimum_dtype fill_value (dtype_or dtype_arg (dtype a)) in
      case dtype_max (dtype a) of
        None \<Rightarrow> Inl NumpyError
      | Some dmax \<Rightarrow>
          if n < 0 then Inl NumpyError
          else
            let ret = full n fill_value dt in
            if index_error group_idx n \<or> broadcast_error a (length group_idx) then Inl NumpyError
            else
              let ret' =
                    (if fill_value \<noteq> dmax
                     then setitem ret group_idx (replicate (length group_idx) (cast dt dmax))
                     else ret)
              in Inr (array1d dt
                   (ufunc_at (\<lambda>r v. cast dt (fmin r v)) ret' group_idx
                      (broadcast a (length group_idx)))))"

definition max_impl :: impl where
  "max_impl group_idx a n fill_value dtype_arg =
     (let dt = minimum_dtype fill_value (dtype_or dtype_arg (dtype a)) in
      case dtype_min (dtype a) of
        None \<Rightarrow> Inl NumpyError
      | Some dmin \<Rightarrow>
          if n < 0 then Inl NumpyError
          else
            let ret = full n fill_value dt in
            if index_error group_idx n \<or> broadcast_error a (length group_idx) then Inl NumpyError
            else
              let ret' =
                    (if fill_value \<noteq> dmin
                     then setitem ret group_idx (replicate (length group_idx) (cast dt dmin))
                     else ret)
              in Inr (array1d dt
                   (ufunc_at (\<lambda>r v. cast dt (fmax r v)) ret' group_idx
                      (broadcast a (length group_idx)))))"

text \<open>\<^verbatim>\<open>x / counts\<close> for an array \<open>x\<close> of dtype \<open>dt\<close> and the integer array of
  counts: true division for a floating \<open>x\<close>, and (the source being Python 2 code without
  the division import) floor division with an integer result for an integer or boolean
  \<open>x\<close>.\<close>

definition divide :: "dtype \<Rightarrow> scalar list \<Rightarrow> nat list \<Rightarrow> dtype \<times> scalar list" where
  "divide dt xs counts =
     (if dt = dt_float then (dt_float, map (\<lambda>(x, c). fdiv x c) (zip xs counts))
      else (dt_int, map (\<lambda>(x, c). idiv x c) (zip xs counts)))"

text \<open>\<^verbatim>\<open>ret[counts == 0] = fill_value\<close>.\<close>

definition fill_empty :: "scalar list \<Rightarrow> nat list \<Rightarrow> scalar \<Rightarrow> scalar list" where
  "fill_empty ret counts v = map (\<lambda>(r, c). if c = 0 then v else r) (zip ret counts)"

definition mean_impl :: impl where
  "mean_impl group_idx a n fill_value dtype_arg =
     (if ndim a = 0 then Inl ScalarMean
      else
        let dt = (case dtype_arg of None \<Rightarrow> dt_float | Some d \<Rightarrow> d) in
        if n < 0 \<or> length (data a) \<noteq> length group_idx then Inl NumpyError
        else
          let counts = bincount group_idx (nat n);
              sums' = bincount_weights group_idx (data a) (nat n);
              (rdt, ret) = divide dt (map (cast dt) sums') counts;
              ret' = (if \<not> isnan fill_value then fill_empty ret counts (cast rdt fill_value) else ret)
          in Inr (array1d rdt ret'))"

text \<open>\<^verbatim>\<open>_var\<close> with its keyword parameter \<^verbatim>\<open>sqrt\<close>, which \<^verbatim>\<open>_std\<close> sets; the table holds
  \<^verbatim>\<open>_var\<close> with the default of that parameter.\<close>

definition var_impl_sqrt :: "bool \<Rightarrow> impl" where
  "var_impl_sqrt sqrt_flag group_idx a n fill_value dtype_arg =
     (if ndim a = 0 then Inl ScalarVar
      else
        let dt = (case dtype_arg of None \<Rightarrow> dt_float | Some d \<Rightarrow> d) in
        if n < 0 \<or> length (data a) \<noteq> length group_idx then Inl NumpyError
        else
          let counts = bincount group_idx (nat n);
              sums' = bincount_weights group_idx (data a) (nat n);
              means = snd (divide dt (map (cast dt) sums') counts);
              sq = map (\<lambda>(x, g). let d = fsub x (means ! g) in fmul d d) (zip (data a) group_idx);
              ret = map (\<lambda>(x, c). fdiv x c) (zip (bincount_weights group_idx sq (nat n)) counts);
              ret' = (if sqrt_flag then map fsqrt ret else ret);
              ret'' = (if \<not> isnan fill_value then fill_empty ret' counts fill_value else ret')
          in Inr (array1d dt_float ret''))"

definition var_impl :: impl where
  "var_impl group_idx a n fill_value dtype_arg = var_impl_sqrt False group_idx a n fill_value dtype_arg"

definition std_impl :: impl where
  "std_impl group_idx a n fill_value dtype_arg = var_impl_sqrt True group_idx a n fill_value dtype_arg"

text \<open>\<^verbatim>\<open>np.isnan(a)\<close>: a boolean array of the shape of \<open>a\<close>.\<close>

definition np_isnan :: "ndarray \<Rightarrow> ndarray" where
  "np_isnan a = a\<lparr>dtype := dt_bool, data := map (\<lambda>v. of_bool (isnan v)) (data a)\<rparr>"

definition allnan_impl :: impl where
  "allnan_impl group_idx a n fill_value dtype_arg =
     all_impl group_idx (np_isnan a) n fill_value dtype_arg"

definition anynan_impl :: impl where
  "anynan_impl group_idx a n fill_value dtype_arg =
     any_impl group_idx (np_isnan a) n fill_value dtype_arg"

text \<open>\<^verbatim>\<open>_impl_dict\<close>, the table that \<^verbatim>\<open>aggregate\<close> takes as its last parameter, with the
  reductions that return a dense numeric array. The grouping kinds \<^verbatim>\<open>sort\<close>, \<^verbatim>\<open>rsort\<close>
  and \<^verbatim>\<open>array\<close>, which return an array of arrays, and the path for a callable \<open>func\<close> are
  not part of this development.\<close>

definition impl_dict :: "(string \<times> impl) list" where
  "impl_dict =
     [(''min'', min_impl), (''max'', max_impl), (''sum'', sum_impl), (''prod'', prod_impl),
      (''last'', last_impl), (''first'', first_impl), (''all'', all_impl), (''any'', any_impl),
      (''mean'', mean_impl), (''std'', std_impl), (''var'', var_impl),
      (''anynan'', anynan_impl), (''allnan'', allnan_impl)]"

subsection \<open>\<^verbatim>\<open>aggregate\<close>\<close>

text \<open>\<^verbatim>\<open>str.lower\<close> on the ASCII letters.\<close>

definition lower_char :: "char \<Rightarrow> char" where
  "lower_char c =
     (let k = (of_char c :: nat) in if 65 \<le> k \<and> k \<le> 90 then char_of (k + 32) else c)"

definition lower :: "string \<Rightarrow> string" where
  "lower s = map lower_char s"

text \<open>The rows of a two-dimensional group index (\<^verbatim>\<open>tuple(group_idx)\<close>): one row for each
  key dimension.\<close>

definition rows :: "index_array \<Rightarrow> int list list" where
  "rows group_idx =
     (let m = ishape group_idx ! 1
      in map (\<lambda>r. take m (drop (r * m) (idata group_idx))) [0..<ishape group_idx ! 0])"

text \<open>The flat position of a multi-index in an array of dimensions \<open>dims\<close>, in row-major
  (C) or column-major (F) order.\<close>

fun ravel :: "order_arg \<Rightarrow> int list \<Rightarrow> int list \<Rightarrow> int" where
  "ravel order_C dims idx = foldl (\<lambda>acc (i, d). acc * d + i) 0 (zip idx dims)"
| "ravel order_F dims idx = foldr (\<lambda>(i, d) acc. i + d * acc) (zip idx dims) 0"

text \<open>\<^verbatim>\<open>np.ravel_multi_index(multi_index, dims, order, mode='raise')\<close>: every coordinate
  must lie within its dimension.\<close>

definition ravel_multi_index :: "int list list \<Rightarrow> int list \<Rightarrow> order_arg \<Rightarrow> error + nat list" where
  "ravel_multi_index multi_index dims order_a =
     (if multi_index = [] \<or> length multi_index \<noteq> length dims then Inl NumpyError
      else
        let points = map (\<lambda>j. map (\<lambda>row. row ! j) multi_index) [0..<length (hd multi_index)] in
        if \<exists>pt \<in> set points. \<exists>(i, d) \<in> set (zip pt dims). i < 0 \<or> d \<le> i then Inl NumpyError
        else Inr (map (\<lambda>pt. nat (ravel order_a dims pt)) points))"

text \<open>The multi-index of a flat position in row-major order.\<close>

fun unravel_C :: "nat list \<Rightarrow> nat \<Rightarrow> nat list" where
  "unravel_C [] p = []"
| "unravel_C (d # ds) p = (p div prod_list ds) # unravel_C ds (p mod prod_list ds)"

text \<open>\<^verbatim>\<open>ret.reshape(size, order=order)\<close> of a flat array. The buffer of the model is in
  row-major order, so a column-major reshape permutes it.\<close>

definition reshape :: "ndarray \<Rightarrow> int list \<Rightarrow> order_arg \<Rightarrow> error + ndarray" where
  "reshape ret dims order_a =
     (if (\<exists>d \<in> set dims. d < 0) \<or> int (length (data ret)) \<noteq> prod_list dims then Inl NumpyError
      else
        let sh = map nat dims in
        Inr \<lparr>shape = sh, dtype = dtype ret,
             data = (case order_a of
                       order_C \<Rightarrow> data ret
                     | order_F \<Rightarrow>
                         map (\<lambda>p. data ret ! nat (ravel order_F dims (map int (unravel_C sh p))))
                           [0..<length (data ret)])\<rparr>)"

text \<open>The branch \<^verbatim>\<open>ndim_idx == 1\<close>: the checks of the index against the values and the
  size, and the output size. It returns the flat index and \<open>size\<close>.\<close>

definition aggregate_1d :: "index_array \<Rightarrow> ndarray \<Rightarrow> size_arg \<Rightarrow> error + nat list \<times> int" where
  "aggregate_1d group_idx a size_a =
     (if \<not> (ndim a = 0 \<or> hd (shape a) = hd (ishape group_idx)) then Inl LengthMismatch
      else if \<exists>i \<in> set (idata group_idx). i < 0 then Inl InvalidIndex
      else
        case size_a of
          ScalarSize s \<Rightarrow>
            if \<exists>i \<in> set (idata group_idx). i > s - 1 then Inl OutOfBounds
            else Inr (map nat (idata group_idx), s)
        | SeqSize ss \<Rightarrow> Inl SizeNotScalar
        | NoSize \<Rightarrow>
            if idata group_idx = [] then Inl NumpyError
            else Inr (map nat (idata group_idx), Max (set (idata group_idx)) + 1))"

text \<open>The branch \<^verbatim>\<open>ndim_idx == 2\<close>: it returns the flat index, \<open>size\<close> and \<open>size_n\<close>.
  \<^verbatim>\<open>np.max(group_idx, axis=1)\<close> raises for rows without elements.\<close>

definition aggregate_2d ::
  "index_array \<Rightarrow> ndarray \<Rightarrow> size_arg \<Rightarrow> order_arg \<Rightarrow> error + nat list \<times> int list \<times> int" where
  "aggregate_2d group_idx a size_a order_a =
     (if \<not> (ndim a = 0 \<or> hd (shape a) = ishape group_idx ! 1) then Inl LengthMismatch
      else
        case (case size_a of
                NoSize \<Rightarrow>
                  if ishape group_idx ! 1 = 0 then Inl NumpyError
                  else Inr (map (\<lambda>row. Max (set row) + 1) (rows group_idx))
              | ScalarSize s \<Rightarrow> Inl SizeNotSequence
              | SeqSize ss \<Rightarrow>
                  if length ss \<noteq> ishape group_idx ! 0 then Inl SizeCountMismatch else Inr ss) of
          Inl e \<Rightarrow> Inl e
        | Inr ss \<Rightarrow>
            (case ravel_multi_index (rows group_idx) ss order_a of
               Inl e \<Rightarrow> Inl e
             | Inr flat \<Rightarrow> Inr (flat, ss, prod_list ss)))"

text \<open>The selection of the reduction from the name \<open>func\<close>, the removal of the NaN values
  for a name that starts with "nan", and the call of the reduction.\<close>

definition strip_nan :: "nat list \<Rightarrow> ndarray \<Rightarrow> nat list \<times> ndarray" where
  "strip_nan group_idx a =
     (let good = map (\<lambda>v. \<not> isnan v) (data a);
          kept = compress (data a) good
      in (compress group_idx good, a\<lparr>shape := [length kept], data := kept\<rparr>))"

definition aggregate_func ::
  "(string \<times> impl) list \<Rightarrow> string list \<Rightarrow> nat list \<Rightarrow> ndarray \<Rightarrow> string \<Rightarrow> int \<Rightarrow> scalar
     \<Rightarrow> dtype option \<Rightarrow> error + ndarray" where
  "aggregate_func impls no_nan group_idx a func size_n fill_value dtype_arg =
     (let func1 = lower func in
      if take 3 func1 = ''nan''
      then
        let func2 = aliasing_get (drop 3 func1) in
        if func2 \<in> set no_nan then Inl NoNanVersion
        else if ndim a = 0 then Inl NanScalar
        else
          let (group_idx', a') = strip_nan group_idx a in
          (case map_of impls func2 of
             None \<Rightarrow> Inl UnknownFunction
           | Some f \<Rightarrow> f group_idx' a' size_n fill_value dtype_arg)
      else
        (case map_of impls (aliasing_get func1) of
           None \<Rightarrow> Inl UnknownFunction
         | Some f \<Rightarrow> f group_idx a size_n fill_value dtype_arg))"

text \<open>\<^verbatim>\<open>aggregate(group_idx, a, func, size, fill_value, order, dtype, _impl_dict)\<close> for a
  name \<open>func\<close>, with the set \<^verbatim>\<open>no_separate_nan_version\<close> that the module imports as the
  last parameter.\<close>

definition aggregate ::
  "index_array \<Rightarrow> ndarray \<Rightarrow> string \<Rightarrow> size_arg \<Rightarrow> scalar \<Rightarrow> order_arg \<Rightarrow> dtype option
     \<Rightarrow> (string \<times> impl) list \<Rightarrow> string list \<Rightarrow> error + ndarray" where
  "aggregate group_idx a func size_a fill_value order_a dtype_arg impls no_nan =
     (if ndim a > 1 then Inl ValuesNotFlat
      else
        let ndim_idx = length (ishape group_idx) in
        if ndim_idx \<noteq> 1 \<and> ndim_idx \<noteq> 2 then Inl BadIndexDims
        else if ndim_idx = 1
        then
          (case aggregate_1d group_idx a size_a of
             Inl e \<Rightarrow> Inl e
           | Inr (flat, size_n) \<Rightarrow> aggregate_func impls no_nan flat a func size_n fill_value dtype_arg)
        else
          (case aggregate_2d group_idx a size_a order_a of
             Inl e \<Rightarrow> Inl e
           | Inr (flat, ss, size_n) \<Rightarrow>
               (case aggregate_func impls no_nan flat a func size_n fill_value dtype_arg of
                  Inl e \<Rightarrow> Inl e
                | Inr ret \<Rightarrow> reshape ret ss order_a)))"

subsection \<open>The weave backend: the inline C kernels\<close>

text \<open>The arrays that a kernel works on: the result, the counter of touched slots and,
  for the variance, the running sums.\<close>

record kernel_state =
  k_ret :: "scalar list"
  k_counter :: "nat list"
  k_means :: "scalar list"

definition optimized_funcs :: "string list" where
  "optimized_funcs =
     [''sum'', ''min'', ''max'', ''amin'', ''amax'', ''mean'', ''var'', ''std'', ''prod'',
      ''nansum'', ''nanmin'', ''nanmax'', ''nanmean'', ''nanvar'', ''nanstd'', ''nanprod'',
      ''all'', ''any'', ''allnan'', ''anynan'',
      ''first'', ''last'', ''nanfirst'', ''nanlast'']"

text \<open>The comparison \<^verbatim>\<open><\<close> of C doubles: false when an operand is NaN.\<close>

fun flt :: "scalar \<Rightarrow> scalar \<Rightarrow> bool" where
  "flt (Fin x) (Fin y) = (x < y)"
| "flt x y = False"

text \<open>\<^verbatim>\<open>c_iter[funcname]\<close>: the body of the loop, run with \<^verbatim>\<open>write_idx = group_idx[i]\<close>
  and the value \<^verbatim>\<open>a[i]\<close>. A value stored into \<^verbatim>\<open>ret\<close> is converted to the dtype \<open>dt\<close> of
  that array.\<close>

definition c_iter :: "string \<Rightarrow> dtype \<Rightarrow> kernel_state \<Rightarrow> nat \<Rightarrow> scalar \<Rightarrow> kernel_state" where
  "c_iter funcname dt st write_idx ai =
     (let ret = k_ret st; counter = k_counter st; means = k_means st in
      if funcname = ''sum''
      then st\<lparr>k_counter := counter[write_idx := 0],
              k_ret := ret[write_idx := cast dt (fadd (ret ! write_idx) ai)]\<rparr>
      else if funcname = ''prod''
      then st\<lparr>k_counter := counter[write_idx := 0],
              k_ret := ret[write_idx := cast dt (fmul (ret ! write_idx) ai)]\<rparr>
      else if funcname = ''all''
      then st\<lparr>k_counter := counter[write_idx := 0],
              k_ret := (if ai = Fin 0 then ret[write_idx := Fin 0] else ret)\<rparr>
      else if funcname = ''any''
      then st\<lparr>k_counter := counter[write_idx := 0],
              k_ret := (if ai \<noteq> Fin 0 then ret[write_idx := cast dt (Fin 1)] else ret)\<rparr>
      else if funcname = ''last''
      then st\<lparr>k_ret := ret[write_idx := cast dt ai]\<rparr>
      else if funcname = ''allnan''
      then st\<lparr>k_counter := counter[write_idx := 0],
              k_ret := (if \<not> isnan ai then ret[write_idx := Fin 0] else ret)\<rparr>
      else if funcname = ''anynan''
      then st\<lparr>k_counter := counter[write_idx := 0],
              k_ret := (if isnan ai then ret[write_idx := cast dt (Fin 1)] else ret)\<rparr>
      else if funcname = ''max''
      then (if counter ! write_idx = 1
            then st\<lparr>k_ret := ret[write_idx := cast dt ai], k_counter := counter[write_idx := 0]\<rparr>
            else if flt (ret ! write_idx) ai then st\<lparr>k_ret := ret[write_idx := cast dt ai]\<rparr>
            else st)
      else if funcname = ''min''
      then (if counter ! write_idx = 1
            then st\<lparr>k_ret := ret[write_idx := cast dt ai], k_counter := counter[write_idx := 0]\<rparr>
            else if flt ai (ret ! write_idx) then st\<lparr>k_ret := ret[write_idx := cast dt ai]\<rparr>
            else st)
      else if funcname = ''mean''
      then st\<lparr>k_counter := counter[write_idx := counter ! write_idx + 1],
              k_ret := ret[write_idx := cast dt (fadd (ret ! write_idx) ai)]\<rparr>
      else if funcname = ''std'' \<or> funcname = ''var''
      then st\<lparr>k_counter := counter[write_idx := counter ! write_idx + 1],
              k_means := means[write_idx := cast dt (fadd (means ! write_idx) ai)],
              k_ret := ret[write_idx := cast dt (fadd (ret ! write_idx) (fmul ai ai))]\<rparr>
      else st)"

text \<open>\<^verbatim>\<open>c_nan_iter\<close>: the body runs for the values that are not NaN only.\<close>

definition c_nan_iter :: "string \<Rightarrow> dtype \<Rightarrow> kernel_state \<Rightarrow> nat \<Rightarrow> scalar \<Rightarrow> kernel_state" where
  "c_nan_iter funcname dt st write_idx ai =
     (if \<not> isnan ai then c_iter funcname dt st write_idx ai else st)"

text \<open>\<^verbatim>\<open>c_finish[funcname]\<close>, with \<^verbatim>\<open>ddof\<close> at its default 0 (the numpy backend has no
  such parameter).\<close>

definition c_finish :: "string \<Rightarrow> dtype \<Rightarrow> scalar \<Rightarrow> kernel_state \<Rightarrow> kernel_state" where
  "c_finish funcname dt fill_value st =
     (if funcname = ''mean''
      then st\<lparr>k_ret := map (\<lambda>(r, c). if c \<noteq> 0 then cast dt (fdiv r c) else cast dt fill_value)
                          (zip (k_ret st) (k_counter st))\<rparr>
      else if funcname = ''var''
      then st\<lparr>k_ret := map (\<lambda>(r, m, c).
                               if c \<noteq> 0
                               then cast dt (fdiv (fsub r (fdiv (fmul m m) c)) c)
                               else cast dt fill_value)
                          (zip (k_ret st) (zip (k_means st) (k_counter st)))\<rparr>
      else if funcname = ''std''
      then st\<lparr>k_ret := map (\<lambda>(r, m, c).
                               if c \<noteq> 0
                               then cast dt (fsqrt (fdiv (fsub r (fdiv (fmul m m) c)) c))
                               else cast dt fill_value)
                          (zip (k_ret st) (zip (k_means st) (k_counter st)))\<rparr>
      else st)"

text \<open>\<^verbatim>\<open>c_base\<close> and \<^verbatim>\<open>c_base_reverse\<close>: the loop over the positions, forwards or
  backwards, and the finishing pass.\<close>

definition c_func ::
  "string \<Rightarrow> bool \<Rightarrow> bool \<Rightarrow> dtype \<Rightarrow> scalar \<Rightarrow> nat list \<Rightarrow> scalar list \<Rightarrow> kernel_state
     \<Rightarrow> kernel_state" where
  "c_func funcname reverse nans dt fill_value group_idx a st =
     (let iter = (if nans then c_nan_iter funcname dt else c_iter funcname dt);
          steps = (if reverse then rev (zip group_idx a) else zip group_idx a)
      in c_finish funcname dt fill_value (foldl (\<lambda>s (g, x). iter s g x) st steps))"

text \<open>\<^verbatim>\<open>get_cfuncs\<close>: the kernel of a name, as the triple of the body's name and the flags
  \<open>reverse\<close> and \<open>nans\<close>.\<close>

definition c_iter_names :: "string list" where
  "c_iter_names =
     [''sum'', ''prod'', ''all'', ''any'', ''last'', ''allnan'', ''anynan'', ''max'', ''min'',
      ''mean'', ''std'', ''var'']"

definition c_funcs :: "string list \<Rightarrow> string \<Rightarrow> (string \<times> bool \<times> bool) option" where
  "c_funcs no_nan func =
     (if func = ''first'' then Some (''last'', True, False)
      else if func = ''nanfirst'' then Some (''last'', True, True)
      else if func \<in> set c_iter_names then Some (func, False, False)
      else if take 3 func = ''nan'' \<and> drop 3 func \<in> set c_iter_names
              \<and> drop 3 func \<notin> set no_nan
      then Some (drop 3 func, False, True)
      else None)"

text \<open>Modelled from the spec: \<^verbatim>\<open>check_dtype\<close> of the module \<^verbatim>\<open>utils_numpy\<close>, which is
  not among the sources. The division-based reductions "promote to floating output
  regardless of input dtype", the boolean reductions are boolean, and the others keep the
  dtype of the values; a requested dtype is taken as it is.\<close>

definition check_dtype :: "dtype option \<Rightarrow> string \<Rightarrow> ndarray \<Rightarrow> dtype" where
  "check_dtype dtype_arg func a =
     (case dtype_arg of
        Some d \<Rightarrow> d
      | None \<Rightarrow>
          if func \<in> set [''all'', ''any'', ''allnan'', ''anynan''] then dt_bool
          else if func \<in> set [''mean'', ''var'', ''std'', ''nanmean'', ''nanvar'', ''nanstd'']
          then dt_float
          else dtype a)"

text \<open>Modelled from the spec: \<^verbatim>\<open>check_fill_value\<close> of the module \<^verbatim>\<open>utils_numpy\<close>,
  which is not among the sources: the fill value must be "representable in the inferred/
  declared dtype".\<close>

definition check_fill_value :: "scalar \<Rightarrow> dtype \<Rightarrow> bool" where
  "check_fill_value fill_value dt = representable dt fill_value"

text \<open>\<^verbatim>\<open>ret[counter] = fill_value\<close>, with the boolean array \<open>counter\<close> as a mask.\<close>

definition fill_counter :: "scalar list \<Rightarrow> nat list \<Rightarrow> scalar \<Rightarrow> scalar list" where
  "fill_counter ret counter v = map (\<lambda>(r, c). if c \<noteq> 0 then v else r) (zip ret counter)"

text \<open>The weave \<^verbatim>\<open>aggregate\<close> from the allocation of \<^verbatim>\<open>ret\<close> on, for a name \<open>func\<close> of
  \<^verbatim>\<open>optimized_funcs\<close>, the dtype that \<^verbatim>\<open>check_dtype\<close> gave and the flat index and size
  that \<^verbatim>\<open>input_validation\<close> gave.\<close>

definition weave_kernel ::
  "string list \<Rightarrow> string \<Rightarrow> nat list \<Rightarrow> scalar list \<Rightarrow> nat \<Rightarrow> scalar \<Rightarrow> dtype
     \<Rightarrow> error + ndarray" where
  "weave_kernel no_nan func group_idx a flat_size fill_value dt =
     (let ret =
            (if func \<in> set [''sum'', ''any'', ''anynan'', ''nansum'']
             then replicate flat_size (Fin 0)
             else if func \<in> set [''prod'', ''all'', ''allnan'', ''nanprod'']
             then replicate flat_size (cast dt (Fin 1))
             else replicate flat_size (cast dt fill_value));
          st =
            (if func \<in> set [''std'', ''var'', ''nanstd'', ''nanvar'']
             then \<lparr>k_ret = ret, k_counter = replicate flat_size 0,
                   k_means = replicate flat_size (Fin 0)\<rparr>
             else if func \<in> set [''mean'', ''nanmean'']
             then \<lparr>k_ret = ret, k_counter = replicate flat_size 0, k_means = []\<rparr>
             else \<lparr>k_ret = ret, k_counter = replicate flat_size 1, k_means = []\<rparr>)
      in case c_funcs no_nan func of
           None \<Rightarrow> Inl NoKernel
         | Some (funcname, reverse, nans) \<Rightarrow>
             let st' = c_func funcname reverse nans dt fill_value group_idx a st;
                 ret' =
                   (if func \<in> set [''sum'', ''any'', ''anynan'', ''nansum''] \<and> fill_value \<noteq> Fin 0
                    then fill_counter (k_ret st') (k_counter st') (cast dt fill_value)
                    else if func \<in> set [''prod'', ''all'', ''allnan'', ''nanprod'']
                            \<and> fill_value \<noteq> Fin 1
                    then fill_counter (k_ret st') (k_counter st') (cast dt fill_value)
                    else k_ret st')
             in Inr (array1d dt ret'))"

text \<open>Modelled from the spec: \<^verbatim>\<open>input_validation\<close> of the module \<^verbatim>\<open>utils_numpy\<close>, which
  is not among the sources. It is the Index Normalizer of the spec, with the checks that
  the numpy \<^verbatim>\<open>aggregate\<close> makes in line; a scalar \<open>a\<close> is broadcast to the length of the
  index. It returns the flat index, the values, the flat size and the number of
  dimensions of the index.\<close>

definition input_validation ::
  "index_array \<Rightarrow> ndarray \<Rightarrow> size_arg \<Rightarrow> order_arg
     \<Rightarrow> error + nat list \<times> scalar list \<times> int \<times> nat" where
  "input_validation group_idx a size_a order_a =
     (if ndim a > 1 then Inl ValuesNotFlat
      else
        let ndim_idx = length (ishape group_idx) in
        if ndim_idx \<noteq> 1 \<and> ndim_idx \<noteq> 2 then Inl BadIndexDims
        else if ndim_idx = 1
        then
          (case aggregate_1d group_idx a size_a of
             Inl e \<Rightarrow> Inl e
           | Inr (flat, size_n) \<Rightarrow> Inr (flat, broadcast a (length flat), size_n, ndim_idx))
        else
          (case aggregate_2d group_idx a size_a order_a of
             Inl e \<Rightarrow> Inl e
           | Inr (flat, ss, size_n) \<Rightarrow> Inr (flat, broadcast a (length flat), size_n, ndim_idx)))"

text \<open>The weave \<^verbatim>\<open>aggregate\<close> for a name \<open>func\<close> of \<^verbatim>\<open>optimized_funcs\<close> (for a function
  without a kernel it falls back to the numpy backend with a callable, which is not part
  of this development), with the set \<^verbatim>\<open>_no_separate_nan_version\<close> that the module imports
  as the last parameter. The last step reshapes to the argument \<open>size\<close> as it was passed,
  where numpy reads \<^verbatim>\<open>None\<close> as the empty shape.\<close>

definition aggregate_weave ::
  "index_array \<Rightarrow> ndarray \<Rightarrow> string \<Rightarrow> size_arg \<Rightarrow> scalar \<Rightarrow> order_arg \<Rightarrow> dtype option
     \<Rightarrow> string list \<Rightarrow> error + ndarray" where
  "aggregate_weave group_idx a func size_a fill_value order_a dtype_arg no_nan =
     (let dt = check_dtype dtype_arg func a in
      if \<not> check_fill_value fill_value dt then Inl FillValueError
      else
        case input_validation group_idx a size_a order_a of
          Inl e \<Rightarrow> Inl e
        | Inr (flat, a', flat_size, ndim_idx) \<Rightarrow>
            if flat_size < 0 then Inl NumpyError
            else
              (case weave_kernel no_nan func flat a' (nat flat_size) fill_value dt of
                 Inl e \<Rightarrow> Inl e
               | Inr ret \<Rightarrow>
                   if ndim_idx > 1
                   then reshape ret (case size_a of
                                       NoSize \<Rightarrow> []
                                     | ScalarSize s \<Rightarrow> [s]
                                     | SeqSize ss \<Rightarrow> ss) order_a
                   else Inr ret))"

subsection \<open>Notions for the statements\<close>

text \<open>The positions of an index that hold the group \<open>g\<close>, in increasing order.\<close>

definition positions :: "'a list \<Rightarrow> 'a \<Rightarrow> nat list" where
  "positions xs g = filter (\<lambda>i. xs ! i = g) [0..<length xs]"


text \<open>The pairs of a group index and a value that a NaN-aware reduction keeps: those whose
  value is not NaN.\<close>

definition drop_nan_pairs :: "nat list \<Rightarrow> scalar list \<Rightarrow> (nat \<times> scalar) list" where
  "drop_nan_pairs group_idx vs = filter (\<lambda>(g, v). \<not> isnan v) (zip group_idx vs)"

section \<open>Properties\<close>

subsection \<open>The names of the reductions\<close>

lemma lower_names:
  "lower ''sum'' = ''sum''" "lower ''prod'' = ''prod''" "lower ''min'' = ''min''"
  "lower ''max'' = ''max''" "lower ''last'' = ''last''" "lower ''first'' = ''first''"
  "lower ''mean'' = ''mean''" "lower ''var'' = ''var''" "lower ''std'' = ''std''"
  "lower ''all'' = ''all''" "lower ''any'' = ''any''"
  "lower ''allnan'' = ''allnan''" "lower ''anynan'' = ''anynan''"
  by code_simp+

lemma aliasing_get_names:
  "aliasing_get ''sum'' = ''sum''" "aliasing_get ''prod'' = ''prod''"
  "aliasing_get ''min'' = ''min''" "aliasing_get ''max'' = ''max''"
  "aliasing_get ''last'' = ''last''" "aliasing_get ''first'' = ''first''"
  "aliasing_get ''mean'' = ''mean''" "aliasing_get ''var'' = ''var''"
  "aliasing_get ''std'' = ''std''" "aliasing_get ''all'' = ''all''"
  "aliasing_get ''any'' = ''any''" "aliasing_get ''allnan'' = ''allnan''"
  "aliasing_get ''anynan'' = ''anynan''"
  by code_simp+

lemma aggregate_func_names:
  "aggregate_func impl_dict no_nan gi a ''sum'' n fv dt = sum_impl gi a n fv dt"
  "aggregate_func impl_dict no_nan gi a ''prod'' n fv dt = prod_impl gi a n fv dt"
  "aggregate_func impl_dict no_nan gi a ''min'' n fv dt = min_impl gi a n fv dt"
  "aggregate_func impl_dict no_nan gi a ''max'' n fv dt = max_impl gi a n fv dt"
  "aggregate_func impl_dict no_nan gi a ''last'' n fv dt = last_impl gi a n fv dt"
  "aggregate_func impl_dict no_nan gi a ''first'' n fv dt = first_impl gi a n fv dt"
  "aggregate_func impl_dict no_nan gi a ''mean'' n fv dt = mean_impl gi a n fv dt"
  "aggregate_func impl_dict no_nan gi a ''var'' n fv dt = var_impl gi a n fv dt"
  "aggregate_func impl_dict no_nan gi a ''std'' n fv dt = std_impl gi a n fv dt"
  "aggregate_func impl_dict no_nan gi a ''all'' n fv dt = all_impl gi a n fv dt"
  "aggregate_func impl_dict no_nan gi a ''any'' n fv dt = any_impl gi a n fv dt"
  "aggregate_func impl_dict no_nan gi a ''allnan'' n fv dt = allnan_impl gi a n fv dt"
  "aggregate_func impl_dict no_nan gi a ''anynan'' n fv dt = anynan_impl gi a n fv dt"
  by (simp_all add: aggregate_func_def lower_names aliasing_get_names impl_dict_def)

subsection \<open>Scenario 1: a sum with the size inferred\<close>

lemma scenario1_index:
  "aggregate_1d \<lparr>ishape = [5], idata = [1, 0, 1, 4, 1]\<rparr>
     \<lparr>shape = [5], dtype = dt_float, data = [Fin 12, Fin 3.2, Fin (- 15), Fin 88, Fin 12.9]\<rparr>
     NoSize
   = Inr ([1, 0, 1, 4, 1], 5)"
  by code_simp

lemma scenario1_sum:
  "sum_impl [1, 0, 1, 4, 1]
     \<lparr>shape = [5], dtype = dt_float, data = [Fin 12, Fin 3.2, Fin (- 15), Fin 88, Fin 12.9]\<rparr>
     5 (Fin 0) None
   = Inr \<lparr>shape = [5], dtype = dt_float, data = [Fin 3.2, Fin 9.9, Fin 0, Fin 0, Fin 88]\<rparr>"
  by code_simp

text \<open>C1: for \<^verbatim>\<open>group_idx = [1, 0, 1, 4, 1]\<close>, the values
  \<^verbatim>\<open>[12.0, 3.2, -15, 88, 12.9]\<close>, the function "sum" and no size, \<^verbatim>\<open>aggregate\<close> takes
  the largest index plus one, 5, as the size of the output and returns
  \<^verbatim>\<open>[3.2, 9.9, 0, 0, 88]\<close>: slot 1 holds 12.0 - 15 + 12.9, and the slots 2 and 3 of the
  groups without elements hold the fill value 0.\<close>

theorem C1_scenario_sum:
  "aggregate \<lparr>ishape = [5], idata = [1, 0, 1, 4, 1]\<rparr>
     \<lparr>shape = [5], dtype = dt_float, data = [Fin 12, Fin 3.2, Fin (- 15), Fin 88, Fin 12.9]\<rparr>
     ''sum'' NoSize (Fin 0) order_F None impl_dict no_separate_nan_version
   = Inr \<lparr>shape = [5], dtype = dt_float, data = [Fin 3.2, Fin 9.9, Fin 0, Fin 0, Fin 88]\<rparr>"
  unfolding aggregate_def scenario1_index sum.case prod.case aggregate_func_names scenario1_sum
  by (simp add: ndim_def)

subsection \<open>The dimensions of the group index\<close>

text \<open>C9: \<^verbatim>\<open>aggregate\<close> raises an error for every group index whose number of dimensions is
  neither 1 nor 2 (a zero-dimensional index, or one of three or more dimensions). The
  error is that of the index, or that of values with more than one dimension, whose
  check comes before; it is the same for every table of reductions, none of which is
  called.\<close>

theorem C9_index_dims:
  assumes "length (ishape group_idx) \<noteq> 1" and "length (ishape group_idx) \<noteq> 2"
  shows "aggregate group_idx a func size_a fill_value order_a dtype_arg impls no_nan
         = Inl (if ndim a > 1 then ValuesNotFlat else BadIndexDims)"
  using assms by (simp add: aggregate_def)

theorem C9_index_dims_witness:
  "aggregate \<lparr>ishape = [], idata = [3]\<rparr> \<lparr>shape = [1], dtype = dt_float, data = [Fin 2]\<rparr>
     ''sum'' NoSize (Fin 0) order_F None impl_dict no_separate_nan_version = Inl BadIndexDims
   \<and> aggregate \<lparr>ishape = [1, 1, 1], idata = [0]\<rparr> \<lparr>shape = [1], dtype = dt_float, data = [Fin 2]\<rparr>
     ''sum'' NoSize (Fin 0) order_F None impl_dict no_separate_nan_version = Inl BadIndexDims"
  using C9_index_dims [of "\<lparr>ishape = [], idata = [3]\<rparr>" "\<lparr>shape = [1], dtype = dt_float, data = [Fin 2]\<rparr>"
      "''sum''" NoSize "Fin 0" order_F None impl_dict no_separate_nan_version]
    C9_index_dims [of "\<lparr>ishape = [1, 1, 1], idata = [0]\<rparr>" "\<lparr>shape = [1], dtype = dt_float, data = [Fin 2]\<rparr>"
      "''sum''" NoSize "Fin 0" order_F None impl_dict no_separate_nan_version]
  by (simp add: ndim_def)

subsection \<open>The errors of the index\<close>






lemma aggregate_1d_index:
  assumes "length (ishape group_idx) = 1" and "ndim a \<le> 1"
  shows "aggregate group_idx a func size_a fill_value order_a dtype_arg impls no_nan =
         (case aggregate_1d group_idx a size_a of
            Inl e \<Rightarrow> Inl e
          | Inr (flat, size_n) \<Rightarrow> aggregate_func impls no_nan flat a func size_n fill_value dtype_arg)"
  using assms by (simp add: aggregate_def)




subsection \<open>First and last: scatter assignment\<close>

lemma positions_Nil [simp]: "positions [] g = []"
  by (simp add: positions_def)




lemma positions_empty_iff: "positions xs g = [] \<longleftrightarrow> g \<notin> set xs"
  by (auto simp: positions_def filter_empty_conv in_set_conv_nth)




lemma setitem_length [simp]: "length (setitem ret idx vals) = length ret"
  by (induction ret idx vals rule: setitem.induct) auto





lemma cast_representable: "representable d v \<Longrightarrow> cast d v = v"
proof (cases d)
  case dt_int
  assume r: "representable d v"
  then obtain x where v: "v = Fin x" using dt_int by (cases v) auto
  have "of_int \<lfloor>x\<rfloor> = x" using r dt_int v by simp
  then have "x \<in> \<int>" by (metis Ints_of_int)
  then show ?thesis using dt_int v by (auto simp: ceiling_altdef)
qed (auto simp: of_bool_def truthy_def)

lemma minimum_dtype_representable: "representable (minimum_dtype fv d) fv"
  by (simp add: minimum_dtype_def)

lemma cast_minimum_dtype_fill: "cast (minimum_dtype fv d) fv = fv"
  by (rule cast_representable) (rule minimum_dtype_representable)

lemma representable_bool_int: "representable dt_bool v \<Longrightarrow> representable dt_int v"
  by auto


lemma aggregate_1d_Inr:
  assumes "aggregate_1d group_idx a size_a = Inr (flat, n)"
  shows "flat = map nat (idata group_idx)" and "\<forall>i \<in> set (idata group_idx). 0 \<le> i \<and> i < n"
    and "ndim a = 0 \<or> hd (shape a) = hd (ishape group_idx)"
    and "size_a = ScalarSize n
         \<or> (size_a = NoSize \<and> idata group_idx \<noteq> [] \<and> n = Max (set (idata group_idx)) + 1)"
  using assms
  by (auto simp: aggregate_1d_def not_less split: if_splits size_arg.splits intro: Max_ge order.strict_trans1 [OF _ less_add_one])





lemma initial_fill:
  "(if fv = Fin 0 then replicate k (Fin 0) else full n fv (minimum_dtype fv d)) ! g
   = (if fv = Fin 0 then replicate k (Fin 0) ! g else replicate (nat n) fv ! g)"
  by (simp add: full_def cast_minimum_dtype_fill)













subsection \<open>The shape of the result\<close>

lemma ufunc_at_length [simp]: "length (ufunc_at f ret idx vals) = length ret"
  by (induction f ret idx vals rule: ufunc_at.induct) auto

lemma bincount_len_bounded:
  assumes "\<forall>g \<in> set gi. g < k"
  shows "bincount_len gi k = k"
proof (cases "gi = []")
  case True
  then show ?thesis by (simp add: bincount_len_def)
next
  case False
  then have "Max (set gi) \<in> set gi" by (intro Max_in) auto
  then have m: "Max (set gi) < k" using assms by blast
  have "bincount_len gi k = max k (Max (set gi) + 1)"
    using False by (simp add: bincount_len_def)
  also have "\<dots> = k" using m by linarith
  finally show ?thesis .
qed

lemma bincount_length [simp]: "length (bincount gi k) = bincount_len gi k"
  by (simp add: bincount_def)

lemma bincount_weights_length [simp]: "length (bincount_weights gi w k) = bincount_len gi k"
  by (simp add: bincount_weights_def)

lemma fill_untouched_length [simp]: "length (fill_untouched gi ret v) = length ret"
  by (simp add: fill_untouched_def)

lemma fill_empty_length [simp]: "length (fill_empty ret counts v) = min (length ret) (length counts)"
  by (simp add: fill_empty_def)










lemma ravel_C_bound:
  assumes "\<forall>(i, d) \<in> set zs. 0 \<le> i \<and> i < (d :: int)" and "0 \<le> acc" and "acc < p"
  shows "0 \<le> foldl (\<lambda>acc (i, d). acc * d + i) acc zs
       \<and> foldl (\<lambda>acc (i, d). acc * d + i) acc zs < p * prod_list (map snd zs)"
  using assms
proof (induction zs arbitrary: acc p)
  case Nil
  then show ?case by simp
next
  case (Cons z zs)
  obtain i d where z: "z = (i, d)" by (cases z)
  have id: "0 \<le> i" "i < (d :: int)" using Cons.prems(1) z by auto
  have "acc + 1 \<le> p" using Cons.prems(3) by simp
  then have "(acc + 1) * d \<le> p * d" using id by (intro mult_right_mono) auto
  then have up: "acc * d + i < p * d" using id by (simp add: algebra_simps)
  have lo: "0 \<le> acc * d + i" using id Cons.prems(2) by simp
  have rest: "\<forall>(i, d) \<in> set zs. 0 \<le> i \<and> i < d" using Cons.prems(1) by simp
  show ?case using Cons.IH [OF rest lo up] by (simp add: z mult.assoc)
qed

lemma ravel_F_bound:
  assumes "\<forall>(i, d) \<in> set zs. 0 \<le> i \<and> i < (d :: int)"
  shows "0 \<le> foldr (\<lambda>(i, d) acc. i + d * acc) zs 0
       \<and> foldr (\<lambda>(i, d) acc. i + d * acc) zs 0 < prod_list (map snd zs)"
  using assms
proof (induction zs)
  case Nil
  then show ?case by simp
next
  case (Cons z zs)
  obtain i d where z: "z = (i, d)" by (cases z)
  let ?rest = "foldr (\<lambda>(i, d) acc. i + d * acc) zs 0"
  have id: "0 \<le> i" "i < d" using Cons.prems z by auto
  have ih: "0 \<le> ?rest" "?rest < prod_list (map snd zs)" using Cons by auto
  have "?rest + 1 \<le> prod_list (map snd zs)" using ih by simp
  then have "d * (?rest + 1) \<le> d * prod_list (map snd zs)" using id by (intro mult_left_mono) auto
  then have "i + d * ?rest < d * prod_list (map snd zs)" using id by (simp add: algebra_simps)
  moreover have "0 \<le> i + d * ?rest" using id ih by simp
  ultimately show ?case by (simp add: z)
qed

lemma ravel_bound:
  assumes "\<forall>(i, d) \<in> set (zip pt dims). 0 \<le> i \<and> i < d" and "length pt = length dims"
  shows "0 \<le> ravel order_a dims pt \<and> ravel order_a dims pt < prod_list dims"
proof -
  have snd: "map snd (zip pt dims) = dims" using assms(2) by simp
  show ?thesis
  proof (cases order_a)
    case order_C
    then show ?thesis using ravel_C_bound [OF assms(1), of 0 1] by (simp add: snd)
  next
    case order_F
    then show ?thesis using ravel_F_bound [OF assms(1)] by (simp add: snd)
  qed
qed

lemma ravel_multi_index_bound:
  assumes "ravel_multi_index multi_index dims order_a = Inr flat"
  shows "\<forall>g \<in> set flat. int g < prod_list dims"
proof -
  let ?points = "map (\<lambda>j. map (\<lambda>row. row ! j) multi_index) [0..<length (hd multi_index)]"
  have len: "length multi_index = length dims"
    and nerr: "\<not> (\<exists>pt \<in> set ?points. \<exists>(i, d) \<in> set (zip pt dims). i < 0 \<or> d \<le> i)"
    and flat: "flat = map (\<lambda>pt. nat (ravel order_a dims pt)) ?points"
    using assms by (simp_all add: ravel_multi_index_def Let_def split: if_splits)
  have ok: "\<forall>pt \<in> set ?points. \<forall>(i, d) \<in> set (zip pt dims). 0 \<le> i \<and> i < d"
    using nerr by force
  show ?thesis
  proof
    fix g assume "g \<in> set flat"
    then obtain pt where pt: "pt \<in> set ?points" and g: "g = nat (ravel order_a dims pt)"
      unfolding flat by auto
    have l: "length pt = length dims" using pt len by auto
    have "\<forall>(i, d) \<in> set (zip pt dims). 0 \<le> i \<and> i < d" using ok pt by blast
    from ravel_bound [OF this l] show "int g < prod_list dims" by (simp add: g)
  qed
qed














subsection \<open>The boolean reductions\<close>


lemma cast_bool_representable: "representable dt_bool (cast dt_bool v)"
  by (simp add: of_bool_def)














subsection \<open>The mean\<close>

lemma group_values_length:
  "length x = length w \<Longrightarrow> length (group_values x w g) = length (filter (\<lambda>i. i = g) x)"
proof (induction x arbitrary: w)
  case Nil
  then show ?case by (simp add: group_values_def)
next
  case (Cons i x)
  then obtain v w' where "w = v # w'" by (cases w) auto
  then show ?case using Cons by (auto simp: group_values_def)
qed

lemma cast_float_id: "cast dt_float = id"
  by (rule ext) simp











subsection \<open>The NaN-aware forms\<close>

lemma lower_nan_names:
  "lower ''nansum'' = ''nansum''" "lower ''nanprod'' = ''nanprod''"
  "lower ''nanmin'' = ''nanmin''" "lower ''nanmax'' = ''nanmax''"
  "lower ''nanmean'' = ''nanmean''" "lower ''nanvar'' = ''nanvar''"
  "lower ''nanstd'' = ''nanstd''"
  by code_simp+

lemma compress_mask_fst:
  "compress xs (map P vs) = map fst (filter (\<lambda>(x, v). P v) (zip xs vs))"
proof (induction xs arbitrary: vs)
  case Nil
  then show ?case by (simp add: compress_def)
next
  case (Cons x xs)
  then show ?case by (cases vs) (auto simp: compress_def)
qed

lemma compress_mask_snd:
  "length vs \<le> length xs \<Longrightarrow>
   compress vs (map P vs) = map snd (filter (\<lambda>(x, v). P v) (zip xs vs))"
proof (induction xs arbitrary: vs)
  case Nil
  then show ?case by (simp add: compress_def)
next
  case (Cons x xs)
  then show ?case by (cases vs) (auto simp: compress_def)
qed

lemma strip_nan_pairs:
  assumes "length (data a) = length gi"
  shows "strip_nan gi a =
           (map fst (drop_nan_pairs gi (data a)),
            a\<lparr>shape := [length (drop_nan_pairs gi (data a))],
              data := map snd (drop_nan_pairs gi (data a))\<rparr>)"
  using assms compress_mask_snd [of "data a" gi "\<lambda>v. \<not> isnan v"]
  by (simp add: strip_nan_def Let_def drop_nan_pairs_def compress_mask_fst)

lemma aggregate_func_nan:
  assumes "take 3 (lower func) = ''nan''" and "aliasing_get (drop 3 (lower func)) \<notin> set no_nan"
    and "ndim a \<noteq> 0" and "map_of impls (aliasing_get (drop 3 (lower func))) = Some f"
  shows "aggregate_func impls no_nan gi a func n fv dt
       = f (fst (strip_nan gi a)) (snd (strip_nan gi a)) n fv dt"
  using assms by (simp add: aggregate_func_def Let_def split: prod.splits)

text \<open>C4: for every name \<open>func\<close> that starts with "nan" (in any case of the letters) and
  goes on with the name or an alias of a kind that has a NaN-aware form, for
  one-dimensional grouping and a flat sequence of values, \<^verbatim>\<open>aggregate\<close> checks the full
  group index and takes the output size from it, discards the pairs of a group index and
  a value whose value is NaN, and runs the reduction of the kind on the pairs that are
  left, with that output size. So for \<^verbatim>\<open>group_idx = [0, 1]\<close>, the values \<^verbatim>\<open>[nan, 5]\<close>
  and "nansum" the result is \<^verbatim>\<open>[0, 5]\<close>: group 0, all of whose values are NaN, keeps
  its slot and holds the fill value 0.\<close>

theorem C4_nan_variants:
  assumes "length (ishape group_idx) = 1" and "ndim a = 1"
    and "length (data a) = length (idata group_idx)"
    and "take 3 (lower func) = ''nan''"
    and "aliasing_get (drop 3 (lower func)) \<notin> set no_nan"
    and "map_of impls (aliasing_get (drop 3 (lower func))) = Some f"
  shows "aggregate group_idx a func size_a fill_value order_a dtype_arg impls no_nan =
           (case aggregate_1d group_idx a size_a of
              Inl e \<Rightarrow> Inl e
            | Inr (flat, n) \<Rightarrow>
                f (map fst (drop_nan_pairs flat (data a)))
                  (a\<lparr>shape := [length (drop_nan_pairs flat (data a))],
                     data := map snd (drop_nan_pairs flat (data a))\<rparr>)
                  n fill_value dtype_arg)"
proof (cases "aggregate_1d group_idx a size_a")
  case (Inl e)
  then show ?thesis
    using assms(1,2) by (simp add: aggregate_1d_index)
next
  case (Inr p)
  obtain flat n where p: "p = (flat, n)" by (cases p)
  have flat: "flat = map nat (idata group_idx)"
    using aggregate_1d_Inr(1) Inr p by blast
  have len: "length (data a) = length flat" using assms(3) flat by simp
  have nz: "ndim a \<noteq> 0" using assms(2) by simp
  show ?thesis
    using assms(1,2) Inr p
    by (simp add: aggregate_1d_index aggregate_func_nan [OF assms(4,5) nz assms(6)]
        strip_nan_pairs [OF len])
qed

lemma scenario4_index:
  "aggregate_1d \<lparr>ishape = [2], idata = [0, 1]\<rparr>
     \<lparr>shape = [2], dtype = dt_float, data = [NaN, Fin 5]\<rparr> NoSize = Inr ([0, 1], 2)"
  "aggregate_1d \<lparr>ishape = [2], idata = [0, 1]\<rparr>
     \<lparr>shape = [2], dtype = dt_float, data = [Fin 5, NaN]\<rparr> NoSize = Inr ([0, 1], 2)"
  by code_simp+

lemma scenario4_pairs:
  "drop_nan_pairs [0, 1] [NaN, Fin 5] = [(1, Fin 5)]"
  "drop_nan_pairs [0, 1] [Fin 5, NaN] = [(0, Fin 5)]"
  by code_simp+

lemma scenario4_sum:
  "sum_impl [Suc 0] \<lparr>shape = [Suc 0], dtype = dt_float, data = [Fin 5]\<rparr> 2 (Fin 0) None
   = Inr \<lparr>shape = [2], dtype = dt_float, data = [Fin 0, Fin 5]\<rparr>"
  "sum_impl [0] \<lparr>shape = [Suc 0], dtype = dt_float, data = [Fin 5]\<rparr> 2 (Fin 0) None
   = Inr \<lparr>shape = [2], dtype = dt_float, data = [Fin 5, Fin 0]\<rparr>"
  by code_simp+

theorem C4_nan_variants_witness:
  "aggregate \<lparr>ishape = [2], idata = [0, 1]\<rparr> \<lparr>shape = [2], dtype = dt_float, data = [NaN, Fin 5]\<rparr>
     ''nansum'' NoSize (Fin 0) order_F None impl_dict no_separate_nan_version
   = Inr \<lparr>shape = [2], dtype = dt_float, data = [Fin 0, Fin 5]\<rparr>
   \<and> aggregate \<lparr>ishape = [2], idata = [0, 1]\<rparr> \<lparr>shape = [2], dtype = dt_float, data = [Fin 5, NaN]\<rparr>
     ''nansum'' NoSize (Fin 0) order_F None impl_dict no_separate_nan_version
   = Inr \<lparr>shape = [2], dtype = dt_float, data = [Fin 5, Fin 0]\<rparr>"
proof -
  let ?gi = "\<lparr>ishape = [2], idata = [0, 1]\<rparr>"
  let ?a1 = "\<lparr>shape = [2], dtype = dt_float, data = [NaN, Fin 5]\<rparr>"
  let ?a2 = "\<lparr>shape = [2], dtype = dt_float, data = [Fin 5, NaN]\<rparr>"
  have nan: "take 3 (lower ''nansum'') = ''nan''" by (simp add: lower_nan_names)
  have kind: "aliasing_get (drop 3 (lower ''nansum'')) = ''sum''"
    by (simp add: lower_nan_names aliasing_get_names)
  have aware: "aliasing_get (drop 3 (lower ''nansum'')) \<notin> set no_separate_nan_version"
    unfolding kind by (simp add: no_separate_nan_version_def)
  have f: "map_of impl_dict (aliasing_get (drop 3 (lower ''nansum''))) = Some sum_impl"
    unfolding kind by (simp add: impl_dict_def)
  have gi: "length (ishape ?gi) = 1" by simp
  have a1: "ndim ?a1 = 1" "length (data ?a1) = length (idata ?gi)" by (simp_all add: ndim_def)
  have a2: "ndim ?a2 = 1" "length (data ?a2) = length (idata ?gi)" by (simp_all add: ndim_def)
  show ?thesis
    using C4_nan_variants [OF gi a1 nan aware f, of NoSize "Fin 0" order_F None]
      C4_nan_variants [OF gi a2 nan aware f, of NoSize "Fin 0" order_F None]
    unfolding scenario4_index sum.case prod.case ndarray.simps scenario4_pairs list.map
      fst_conv snd_conv list.size
    by (simp add: scenario4_sum)
qed

subsection \<open>Scalar values\<close>





lemma cast_count_one: "cast dt (Fin (real c)) = cast dt (Fin (real c * 1))"
  by simp














subsection \<open>The two backends\<close>

lemma scenario_var_numpy:
  "aggregate \<lparr>ishape = [3], idata = [0, 0, 1]\<rparr>
     \<lparr>shape = [3], dtype = dt_float, data = [Fin 1, Fin 3, Fin 5]\<rparr>
     ''var'' NoSize (Fin 5) order_C None impl_dict no_separate_nan_version
   = Inr \<lparr>shape = [2], dtype = dt_float, data = [Fin 1, Fin 0]\<rparr>"
proof -
  have ix: "aggregate_1d \<lparr>ishape = [3], idata = [0, 0, 1]\<rparr>
      \<lparr>shape = [3], dtype = dt_float, data = [Fin 1, Fin 3, Fin 5]\<rparr> NoSize = Inr ([0, 0, 1], 2)"
    by code_simp
  have v: "var_impl [0, 0, 1] \<lparr>shape = [3], dtype = dt_float, data = [Fin 1, Fin 3, Fin 5]\<rparr>
      2 (Fin 5) None = Inr \<lparr>shape = [2], dtype = dt_float, data = [Fin 1, Fin 0]\<rparr>"
    by code_simp
  show ?thesis
    unfolding aggregate_def ix sum.case prod.case aggregate_func_names v
    by (simp add: ndim_def)
qed

lemma scenario_var_weave:
  "aggregate_weave \<lparr>ishape = [3], idata = [0, 0, 1]\<rparr>
     \<lparr>shape = [3], dtype = dt_float, data = [Fin 1, Fin 3, Fin 5]\<rparr>
     ''var'' NoSize (Fin 5) order_C None no_separate_nan_version
   = Inr \<lparr>shape = [2], dtype = dt_float, data = [Fin 3.5, Fin 5]\<rparr>"
  by code_simp

text \<open>C8: the weave backend does not return what the numpy backend returns for "var" when
  the fill value is not 0. For \<^verbatim>\<open>group_idx = [0, 0, 1]\<close>, the values \<^verbatim>\<open>[1, 3, 5]\<close> and
  the fill value 5, the numpy backend returns the variances \<^verbatim>\<open>[1, 0]\<close>, and the weave
  backend \<^verbatim>\<open>[3.5, 5]\<close>: it allocates the accumulator of the squares filled with the fill
  value, and so adds the fill value to the sum of the squares of every group.\<close>

theorem C8_weave_var_fill_value:
  "aggregate \<lparr>ishape = [3], idata = [0, 0, 1]\<rparr>
     \<lparr>shape = [3], dtype = dt_float, data = [Fin 1, Fin 3, Fin 5]\<rparr>
     ''var'' NoSize (Fin 5) order_C None impl_dict no_separate_nan_version
   = Inr \<lparr>shape = [2], dtype = dt_float, data = [Fin 1, Fin 0]\<rparr>
   \<and> aggregate_weave \<lparr>ishape = [3], idata = [0, 0, 1]\<rparr>
       \<lparr>shape = [3], dtype = dt_float, data = [Fin 1, Fin 3, Fin 5]\<rparr>
       ''var'' NoSize (Fin 5) order_C None no_separate_nan_version
     = Inr \<lparr>shape = [2], dtype = dt_float, data = [Fin 3.5, Fin 5]\<rparr>"
  using scenario_var_numpy scenario_var_weave by (rule conjI)

subsection \<open>The variance in one pass and in two\<close>

lemma foldl_fadd_NaN [simp]: "foldl fadd NaN vs = NaN"
  by (induction vs) auto

lemma foldl_fadd_has_NaN: "NaN \<in> set vs \<Longrightarrow> foldl fadd acc vs = NaN"
proof (induction vs arbitrary: acc)
  case Nil
  then show ?case by simp
next
  case (Cons v vs)
  then show ?case by (cases acc; cases v) auto
qed

lemma fsum_has_NaN: "NaN \<in> set vs \<Longrightarrow> fsum vs = NaN"
  by (simp add: fsum_def foldl_fadd_has_NaN)

lemma foldl_fadd_Fin: "foldl fadd (Fin s) (map Fin xs) = Fin (s + sum_list xs)"
  by (induction xs arbitrary: s) (simp_all add: algebra_simps)

lemma fsum_Fin: "fsum (map Fin xs) = Fin (sum_list xs)"
  by (simp add: fsum_def foldl_fadd_Fin)

lemma all_finite: "NaN \<notin> set vs \<Longrightarrow> \<exists>xs. vs = map Fin xs"
proof (induction vs)
  case Nil
  then show ?case by simp
next
  case (Cons v vs)
  then obtain xs where "vs = map Fin xs" by auto
  moreover obtain x where "v = Fin x" using Cons.prems by (cases v) auto
  ultimately have "v # vs = map Fin (x # xs)" by simp
  then show ?case by - (rule exI [of _ "x # xs"])
qed

lemma sum_list_square_deviation:
  "sum_list (map (\<lambda>x. (x - m) * (x - m)) xs)
   = sum_list (map (\<lambda>x. x * x) xs) - 2 * m * sum_list xs + real (length xs) * (m * m)"
  by (induction xs) (simp_all add: algebra_simps)

lemma variance_real:
  assumes "xs \<noteq> []"
  shows "(sum_list (map (\<lambda>x. x * x) xs) - sum_list xs * sum_list xs / real (length xs))
           / real (length xs)
       = sum_list (map (\<lambda>x. (x - sum_list xs / real (length xs))
                              * (x - sum_list xs / real (length xs))) xs)
           / real (length xs)"
proof -
  have c: "real (length xs) \<noteq> 0" using assms by simp
  show ?thesis
    unfolding sum_list_square_deviation using c by (simp add: field_simps)
qed

text \<open>The formula of the weave kernel, with the accumulator of the squares started at 0,
  and the formula of \<^verbatim>\<open>_var\<close> agree on the values of every group with elements.\<close>

lemma variance_one_pass:
  assumes "vs \<noteq> []"
  shows "fdiv (fsub (fsum (map (\<lambda>x. fmul x x) vs))
                 (fdiv (fmul (fsum vs) (fsum vs)) (length vs))) (length vs)
       = fdiv (fsum (map (\<lambda>x. let d = fsub x (fdiv (fsum vs) (length vs)) in fmul d d) vs))
           (length vs)"
proof (cases "NaN \<in> set vs")
  case True
  have l: "fsum (map (\<lambda>x. fmul x x) vs) = NaN"
    using True by (intro fsum_has_NaN) force
  have m: "fsum vs = NaN" using True by (rule fsum_has_NaN)
  have "map (\<lambda>x. let d = fsub x (fdiv (fsum vs) (length vs)) in fmul d d) vs
        = map (\<lambda>x. NaN) vs"
    by (simp add: m Let_def)
  moreover have "NaN \<in> set (map (\<lambda>x. NaN :: scalar) vs)" using assms by (cases vs) auto
  ultimately have r: "fsum (map (\<lambda>x. let d = fsub x (fdiv (fsum vs) (length vs)) in fmul d d) vs)
        = NaN"
    by (simp add: fsum_has_NaN del: map_eq_conv)
  show ?thesis by (simp add: l r)
next
  case False
  then obtain xs where vs: "vs = map Fin xs" using all_finite by blast
  have xs: "xs \<noteq> []" using assms vs by auto
  have sq: "map (\<lambda>x. fmul x x) (map Fin xs) = map Fin (map (\<lambda>x. x * x) xs)" by simp
  have dev: "map (\<lambda>x. let d = fsub x (Fin m) in fmul d d) (map Fin xs)
             = map Fin (map (\<lambda>x. (x - m) * (x - m)) xs)" for m
    by (simp add: Let_def)
  show ?thesis
    using xs variance_real [OF xs]
    unfolding vs by (simp add: sq dev fsum_Fin del: map_map)
qed

lemma c_iter_var:
  "c_iter ''var'' dt_float st w x =
     st\<lparr>k_counter := (k_counter st)[w := k_counter st ! w + 1],
        k_means := (k_means st)[w := fadd (k_means st ! w) x],
        k_ret := (k_ret st)[w := fadd (k_ret st ! w) (fmul x x)]\<rparr>"
  by (simp add: c_iter_def Let_def)

lemma var_loop_length:
  "length (k_ret (foldl (\<lambda>s (g, x). c_iter ''var'' dt_float s g x) st ps)) = length (k_ret st)
   \<and> length (k_counter (foldl (\<lambda>s (g, x). c_iter ''var'' dt_float s g x) st ps))
       = length (k_counter st)
   \<and> length (k_means (foldl (\<lambda>s (g, x). c_iter ''var'' dt_float s g x) st ps))
       = length (k_means st)"
proof (induction ps arbitrary: st)
  case Nil
  then show ?case by simp
next
  case (Cons p ps)
  obtain w x where p: "p = (w, x)" by (cases p)
  show ?case unfolding p using Cons [of "c_iter ''var'' dt_float st w x"]
    by (simp add: c_iter_var)
qed

lemma var_loop:
  assumes "g < length (k_ret st)" and "g < length (k_counter st)" and "g < length (k_means st)"
  shows "k_counter (foldl (\<lambda>s (g, x). c_iter ''var'' dt_float s g x) st ps) ! g
         = k_counter st ! g + length (filter (\<lambda>p. fst p = g) ps)
       \<and> k_means (foldl (\<lambda>s (g, x). c_iter ''var'' dt_float s g x) st ps) ! g
         = foldl fadd (k_means st ! g) (map snd (filter (\<lambda>p. fst p = g) ps))
       \<and> k_ret (foldl (\<lambda>s (g, x). c_iter ''var'' dt_float s g x) st ps) ! g
         = foldl fadd (k_ret st ! g)
             (map (\<lambda>v. fmul v v) (map snd (filter (\<lambda>p. fst p = g) ps)))"
  using assms
proof (induction ps arbitrary: st)
  case Nil
  then show ?case by simp
next
  case (Cons p ps)
  obtain w x where p: "p = (w, x)" by (cases p)
  let ?st = "c_iter ''var'' dt_float st w x"
  have "g < length (k_ret ?st)" "g < length (k_counter ?st)" "g < length (k_means ?st)"
    using Cons.prems by (simp_all add: c_iter_var)
  from Cons.IH [OF this] show ?case
    unfolding p using Cons.prems by (simp add: c_iter_var nth_list_update)
qed

lemma group_values_map_zip:
  "length xs = length gi \<Longrightarrow>
   group_values gi (map (\<lambda>(x, g). f g x) (zip xs gi)) g = map (f g) (group_values gi xs g)"
proof (induction gi arbitrary: xs)
  case Nil
  then show ?case by (simp add: group_values_def)
next
  case (Cons i gi)
  then obtain x xs' where "xs = x # xs'" by (cases xs) auto
  then show ?case using Cons by (auto simp: group_values_def)
qed

lemma c_funcs_var: "c_funcs no_nan ''var'' = Some (''var'', False, False)"
  by (simp add: c_funcs_def c_iter_names_def)

lemma var_kernel_numpy:
  assumes len: "length (data a) = length gi" and bound: "\<forall>g \<in> set gi. g < n"
    and flat: "ndim a = 1"
  shows "weave_kernel no_nan ''var'' gi (data a) n (Fin 0) dt_float
         = var_impl gi a (int n) (Fin 0) None"
proof -
  let ?xs = "data a"
  let ?init = "\<lparr>k_ret = replicate n (Fin 0), k_counter = replicate n 0,
               k_means = replicate n (Fin 0)\<rparr>"
  let ?st = "foldl (\<lambda>s (g, x). c_iter ''var'' dt_float s g x) ?init (zip gi ?xs)"
  let ?W = "map (\<lambda>(r, m, c). if c \<noteq> 0 then fdiv (fsub r (fdiv (fmul m m) c)) c else Fin 0)
              (zip (k_ret ?st) (zip (k_means ?st) (k_counter ?st)))"
  let ?counts = "bincount gi n"
  let ?means = "map (\<lambda>(x, c). fdiv x c) (zip (bincount_weights gi ?xs n) ?counts)"
  let ?sq = "map (\<lambda>(x, g). let d = fsub x (?means ! g) in fmul d d) (zip ?xs gi)"
  let ?ret = "map (\<lambda>(x, c). fdiv x c) (zip (bincount_weights gi ?sq n) ?counts)"
  let ?N = "fill_empty ?ret ?counts (Fin 0)"
  have bl: "bincount_len gi n = n" using bound by (rule bincount_len_bounded)
  have weave: "weave_kernel no_nan ''var'' gi ?xs n (Fin 0) dt_float = Inr (array1d dt_float ?W)"
    by (simp add: weave_kernel_def c_funcs_var c_func_def c_finish_def Let_def cong: if_cong)
  have numpy: "var_impl gi a (int n) (Fin 0) None = Inr (array1d dt_float ?N)"
    using len flat
    by (simp add: var_impl_def var_impl_sqrt_def divide_def Let_def cast_float_id)
  have lens: "length (k_ret ?st) = n" "length (k_counter ?st) = n" "length (k_means ?st) = n"
    using var_loop_length [of ?init "zip gi ?xs"] by simp_all
  have lW: "length ?W = n" using lens by simp
  have lN: "length ?N = n" by (simp add: fill_empty_def bincount_def bincount_weights_def bl)
  have "?W ! g = ?N ! g" if g: "g < n" for g
  proof -
    let ?vs = "group_values gi ?xs g"
    have c: "length ?vs = length (filter (\<lambda>i. i = g) gi)"
      using len by (intro group_values_length) simp
    have inv: "k_counter ?st ! g = length ?vs" "k_means ?st ! g = fsum ?vs"
      "k_ret ?st ! g = fsum (map (\<lambda>v. fmul v v) ?vs)"
      using var_loop [of g ?init "zip gi ?xs"] g
      by (simp_all add: group_values_def fsum_def)
    have Wg: "?W ! g = (if length ?vs \<noteq> 0
        then fdiv (fsub (fsum (map (\<lambda>v. fmul v v) ?vs))
                    (fdiv (fmul (fsum ?vs) (fsum ?vs)) (length ?vs))) (length ?vs)
        else Fin 0)"
      using g lens by (simp add: inv)
    have mg: "?means ! g = fdiv (fsum ?vs) (length ?vs)"
      using g by (simp add: bincount_def bincount_weights_def bl c)
    have sq: "group_values gi ?sq g
              = map (\<lambda>x. let d = fsub x (?means ! g) in fmul d d) ?vs"
      using len by (rule group_values_map_zip)
    have Ng: "?N ! g = (if length ?vs = 0 then Fin 0
        else fdiv (fsum (map (\<lambda>x. let d = fsub x (fdiv (fsum ?vs) (length ?vs)) in fmul d d)
                          ?vs)) (length ?vs))"
      unfolding sq [unfolded mg, symmetric]
      using g by (simp add: fill_empty_def bincount_def bincount_weights_def bl c del: group_values_map_zip)
    show ?thesis
      unfolding Wg Ng using variance_one_pass [of ?vs] by auto
  qed
  then have "?W = ?N" using lW lN by (intro nth_equalityI) simp_all
  then show ?thesis unfolding weave numpy by simp
qed

lemma broadcast_same_length: "ndim a = 1 \<Longrightarrow> length (data a) = k \<Longrightarrow> broadcast a k = data a"
  by (cases "data a") (auto simp: broadcast_def scalar_of_def)

text \<open>With the fill value 0 the two backends agree on "var", for a one-dimensional group
  index and values of its length: the accumulator of the squares then starts at 0, and
  the formula of the kernel, \<^verbatim>\<open>(sum(x^2) - sum(x)^2 / count) / count\<close>, is the mean of
  the squared deviations in exact arithmetic.\<close>

lemma backends_agree_var_fill_0:
  assumes one: "length (ishape group_idx) = 1" and flat: "ndim a = 1"
    and len: "length (data a) = length (idata group_idx)"
  shows "aggregate_weave group_idx a ''var'' size_a (Fin 0) order_a None no_nan
         = aggregate group_idx a ''var'' size_a (Fin 0) order_a None impl_dict no_nan"
proof (cases "aggregate_1d group_idx a size_a")
  case (Inl e)
  then show ?thesis
    using one flat
    by (simp add: aggregate_weave_def aggregate_def input_validation_def check_dtype_def
        check_fill_value_def)
next
  case (Inr p)
  obtain fl n where p: "p = (fl, n)" by (cases p)
  have ix: "aggregate_1d group_idx a size_a = Inr (fl, n)" using Inr p by simp
  note facts = aggregate_1d_Inr [OF ix]
  have l: "length (data a) = length fl" using len facts(1) by simp
  have numpy: "aggregate group_idx a ''var'' size_a (Fin 0) order_a None impl_dict no_nan
               = var_impl fl a n (Fin 0) None"
    using one flat by (simp add: aggregate_def ix aggregate_func_names)
  have weave: "aggregate_weave group_idx a ''var'' size_a (Fin 0) order_a None no_nan
               = (if n < 0 then Inl NumpyError
                  else weave_kernel no_nan ''var'' fl (data a) (nat n) (Fin 0) dt_float)"
    using one flat
    by (simp add: aggregate_weave_def input_validation_def check_dtype_def
        check_fill_value_def ix broadcast_same_length [OF flat l] split: sum.splits)
  show ?thesis
  proof (cases "n < 0")
    case True
    then show ?thesis unfolding numpy weave using flat
      by (simp add: var_impl_def var_impl_sqrt_def)
  next
    case False
    have "\<forall>g \<in> set fl. g < nat n" using facts(1,2) by auto
    from var_kernel_numpy [OF l this flat] show ?thesis
      unfolding numpy weave using False by simp
  qed
qed

end
